theory Spec2Isabelle
  imports Main "HOL-Library.Char_ord" "HOL-Library.List_Lexorder"
begin

section \<open>Python values shared by both scripts\<close>

text \<open>
  A Python \<open>str\<close> of the card importer is modelled as \<open>string\<close>: the UTF-8 bytes of
  the text. Equality and concatenation of texts are equality and concatenation of their
  UTF-8 bytes, and the order of \<open>str\<close> (code point by code point, a proper prefix first)
  is the bytewise lexicographic order of the UTF-8 forms, which \<open>List_Lexorder\<close> and
  \<open>Char_ord\<close> give to \<open>string\<close>.

  Exceptions are values: a function that can raise returns \<open>pyerror + 'a\<close>, with
  \<open>Inl\<close> the exception that propagates.
\<close>

datatype pyerror =
    KeyError string
  | ValueError
  | TypeError
  | ZeroDivisionError
  | UnicodeEncodeError

section \<open>build_carddb_ptcg.py: cost notation\<close>

text \<open>The table \<open>TYPEABBR\<close> (lines 20 to 32).\<close>

definition TYPEABBR :: "string \<Rightarrow> string option" where
  "TYPEABBR = map_of
     [(''Colorless'', ''C''),
      (''Darkness'', ''D''),
      (''Dragon'', ''N''),
      (''Grass'', ''G''),
      (''Fairy'', ''Y''),
      (''Fighting'', ''F''),
      (''Fire'', ''R''),
      (''Lightning'', ''L''),
      (''Metal'', ''M''),
      (''Psychic'', ''P''),
      (''Water'', ''W'')]"

text \<open>\<open>str(n)\<close> for a count \<open>n \<ge> 0\<close>: the decimal digits, most significant first.\<close>

fun str :: "nat \<Rightarrow> string" where
  "str n =
     (if n < 10 then [''0123456789'' ! n]
      else str (n div 10) @ [''0123456789'' ! (n mod 10)])"

declare str.simps [simp del]

text \<open>
  The loop \<open>for cost in costs: res.append(TYPEABBR[cost])\<close>: a token that is no key
  of the table raises \<open>KeyError\<close> at once.
\<close>

fun append_abbrs :: "string list \<Rightarrow> string list \<Rightarrow> pyerror + string list" where
  "append_abbrs res [] = Inr res"
| "append_abbrs res (c # cs) =
     (case TYPEABBR c of
        None \<Rightarrow> Inl (KeyError c)
      | Some a \<Rightarrow> append_abbrs (res @ [a]) cs)"

text \<open>
  \<open>cost(costs, colorlesscount=True)\<close> (lines 221 to 231). The pair \<open>(res, costs)\<close>
  is the state of the two local variables after the \<open>if colorlesscount\<close> block.
\<close>

definition cost :: "string list \<Rightarrow> bool \<Rightarrow> pyerror + string" where
  "cost costs colorlesscount =
     (let (res, costs) =
        (if colorlesscount then
           (let costs = filter (\<lambda>i. i \<noteq> ''Free'') costs;
                count = length (filter (\<lambda>i. i = ''Colorless'') costs)
            in if count \<noteq> 0 \<or> costs = []
               then ([str count], filter (\<lambda>i. i \<noteq> ''Colorless'') costs)
               else ([], costs))
         else ([], costs))
      in case append_abbrs res costs of
           Inl e \<Rightarrow> Inl e
         | Inr res \<Rightarrow> Inr (concat res))"

section \<open>build_carddb_ptcg.py: the card records\<close>

text \<open>
  A card is the JSON object of the catalogue. The keys that the script reads with
  \<open>card['k']\<close> are plain fields (a well-formed record has them); the keys that it
  reads with \<open>card.get('k')\<close> or tests with \<open>'k' in card\<close> are optional, \<open>None\<close>
  for an absent key.
\<close>

record cardset =
  set_id :: string
  ptcgoCode :: "string option"
  releaseDate :: string

text \<open>An entry of \<open>abilities\<close>, of \<open>attacks\<close>, or the \<open>ancientTrait\<close>.\<close>

record rule_entry =
  rule_type :: "string option"
  rule_cost :: "string list option"
  rule_name :: string
  rule_damage :: "string option"
  rule_text :: "string option"

text \<open>An entry of \<open>weaknesses\<close> or \<open>resistances\<close>.\<close>

record typeeff =
  eff_type :: string
  eff_value :: string

record card =
  name :: string
  supertype :: string
  number :: string
  card_set :: cardset
  types :: "string list option"
  hp :: "string option"
  subtypes :: "string list option"
  evolvesFrom :: "string option"
  rules :: "string list option"
  ancientTrait :: "rule_entry option"
  abilities :: "rule_entry list option"
  attacks :: "rule_entry list option"
  weaknesses :: "typeeff list option"
  resistances :: "typeeff list option"
  retreatCost :: "string list option"

text \<open>The supertype literal \<open>'Pok\'emon'\<close>; the accented letter is U+00E9, two bytes.\<close>

definition Pokemon :: string where
  "Pokemon = ''Pok'' @ [CHR 0xC3, CHR 0xA9] @ ''mon''"

text \<open>
  \<open>str.upper()\<close> on the set identifier. The catalogue's identifiers are ASCII
  (\<open>base1\<close>, \<open>swsh45\<close>); the model maps the letters a to z and keeps every other
  byte.
\<close>

definition upper_char :: "char \<Rightarrow> char" where
  "upper_char c =
     (case map_of (zip ''abcdefghijklmnopqrstuvwxyz'' ''ABCDEFGHIJKLMNOPQRSTUVWXYZ'') c of
        Some u \<Rightarrow> u
      | None \<Rightarrow> c)"

definition upper :: "string \<Rightarrow> string" where
  "upper s = map upper_char s"

text \<open>
  \<open>setcode\<close> (line 219): \<open>x or y\<close> is \<open>y\<close> when \<open>x\<close> is \<open>None\<close> or the empty
  string.
\<close>

definition setcode :: "card \<Rightarrow> string" where
  "setcode crd =
     (case ptcgoCode (card_set crd) of
        Some code \<Rightarrow> if code \<noteq> [] then code else upper (set_id (card_set crd))
      | None \<Rightarrow> upper (set_id (card_set crd)))"

section \<open>build_carddb_ptcg.py: the name generator\<close>

text \<open>
  \<open>gen_cardnames\<close> (lines 119 to 137) yields pairs; \<open>process_card\<close> binds the second
  component to \<open>hidden\<close>, and \<open>main\<close> stores it in the column \<open>hidden\<close>.
\<close>

definition gen_cardnames :: "card \<Rightarrow> bool \<Rightarrow> bool \<Rightarrow> (string \<times> bool) list" where
  "gen_cardnames crd unique setunique =
     (if supertype crd = Pokemon then
        [(name crd @ '' ('' @ setcode crd @ '' '' @ number crd @ '')'',
          unique \<or> setunique)]
        @ (if setunique then [(name crd @ '' ('' @ setcode crd @ '')'', unique)] else [])
        @ (if unique then [(name crd, False)] else [])
      else [(name crd, False)])"

section \<open>build_carddb_ptcg.py: the description text\<close>

text \<open>\<open>sep.join(xs)\<close>.\<close>

fun join :: "string \<Rightarrow> string list \<Rightarrow> string" where
  "join sep [] = []"
| "join sep [x] = x"
| "join sep (x # xs) = x @ sep @ join sep xs"

text \<open>
  The pieces yielded for an optional key \<open>k\<close> under \<open>if card.get('k')\<close>: none when
  the key is absent or its value is empty.
\<close>

definition if_get :: "'a list option \<Rightarrow> ('a list \<Rightarrow> 'b list) \<Rightarrow> 'b list" where
  "if_get v f = (case v of None \<Rightarrow> [] | Some x \<Rightarrow> if x \<noteq> [] then f x else [])"

text \<open>
  The loops \<open>for i, x in enumerate(xs): if i: yield sep; ...\<close> whose body yields the
  pieces \<open>f x\<close>; \<open>i\<close> is the index of the head of the list.
\<close>

fun enum_pieces :: "string \<Rightarrow> ('a \<Rightarrow> string list) \<Rightarrow> nat \<Rightarrow> 'a list \<Rightarrow> string list" where
  "enum_pieces sep f i [] = []"
| "enum_pieces sep f i (x # xs) =
     (if i \<noteq> 0 then [sep] else []) @ f x @ enum_pieces sep f (Suc i) xs"

text \<open>The pieces \<open>'{', cost(c), close\<close> of a cost that is present.\<close>

definition cost_pieces :: "string list option \<Rightarrow> string \<Rightarrow> string \<Rightarrow> pyerror + string list" where
  "cost_pieces c opn cls =
     (case c of
        None \<Rightarrow> Inr []
      | Some cs \<Rightarrow> (case cost cs True of Inl e \<Rightarrow> Inl e | Inr s \<Rightarrow> Inr [opn, s, cls]))"

text \<open>The body of the loop over \<open>rules\<close> (lines 183 to 198).\<close>

definition gen_rule :: "rule_entry \<Rightarrow> pyerror + string list" where
  "gen_rule r =
     (case cost_pieces (rule_cost r) ''{'' ''} '' of
        Inl e \<Rightarrow> Inl e
      | Inr cp \<Rightarrow>
          Inr (if_get (rule_type r) (\<lambda>t. if t \<noteq> ''Ability'' then [''['', t, ''] ''] else [])
               @ cp
               @ [rule_name r]
               @ if_get (rule_damage r) (\<lambda>d. ['' ('', d, '')''])
               @ if_get (rule_text r) (\<lambda>t. ['': '', t])))"

text \<open>
  The loop \<open>for i, rule in enumerate(rules)\<close> (lines 180 to 198); it stops at the
  first rule whose cost raises.
\<close>

fun gen_rules :: "nat \<Rightarrow> rule_entry list \<Rightarrow> pyerror + string list" where
  "gen_rules i [] = Inr []"
| "gen_rules i (r # rs) =
     (case gen_rule r of
        Inl e \<Rightarrow> Inl e
      | Inr ps \<Rightarrow>
          (case gen_rules (Suc i) rs of
             Inl e \<Rightarrow> Inl e
           | Inr qs \<Rightarrow> Inr ((if i \<noteq> 0 then ['' / ''] else []) @ ps @ qs)))"

text \<open>
  The assignment \<open>card['ancientTrait']['type'] = 'Ancient Trait'\<close> of line 172 changes
  the card object itself; \<open>mark_trait\<close> is the card after \<open>gen_text\<close> has run.
\<close>

definition mark_trait :: "card \<Rightarrow> card" where
  "mark_trait crd =
     crd\<lparr>ancientTrait :=
       map_option (\<lambda>t. t\<lparr>rule_type := Some ''Ancient Trait''\<rparr>) (ancientTrait crd)\<rparr>"

text \<open>
  \<open>gen_text\<close> (lines 139 to 216): the list of the pieces yielded, or the exception of
  the first \<open>cost\<close> call that raises. The weaknesses, the resistances and the retreat
  cost are inside \<open>if rules:\<close>, as in the source.
\<close>

definition gen_text :: "card \<Rightarrow> pyerror + string list" where
  "gen_text crd =
     (let front =
            [name crd]
            @ (if supertype crd = Pokemon
               then ['' ('', setcode crd, '' '', number crd, '')''] else [])
            @ ['' | '', supertype crd]
            @ if_get (types crd) (\<lambda>ts. ['' {'', join ''/'' ts, ''}''])
            @ if_get (hp crd) (\<lambda>h. ['' ['', h, ''HP]''])
            @ if_get (subtypes crd)
                (\<lambda>ss. [[CHR '' '', CHR 0xE2, CHR 0x80, CHR 0x94, CHR '' ''], join '' '' ss])
            @ if_get (evolvesFrom crd) (\<lambda>ev. ['' [evolves from: '', ev, '']''])
            @ if_get (rules crd) (\<lambda>rs. '' | '' # enum_pieces '' / '' (\<lambda>r. [r]) 0 rs);
          rules =
            (case ancientTrait (mark_trait crd) of None \<Rightarrow> [] | Some t \<Rightarrow> [t])
            @ if_get (abilities crd) (\<lambda>xs. xs)
            @ if_get (attacks crd) (\<lambda>xs. xs)
      in if rules \<noteq> [] then
           (case gen_rules 0 rules of
              Inl e \<Rightarrow> Inl e
            | Inr ps \<Rightarrow>
                (case cost_pieces (retreatCost crd) '' | retreat: {'' ''}'' of
                   Inl e \<Rightarrow> Inl e
                 | Inr rp \<Rightarrow>
                     Inr (front @ ['' | ''] @ ps
                          @ if_get (weaknesses crd)
                              (\<lambda>ws. '' | weak: '' #
                                 enum_pieces '', '' (\<lambda>t. [eff_type t, eff_value t]) 0 ws)
                          @ if_get (resistances crd)
                              (\<lambda>ws. '' | resist: '' #
                                 enum_pieces '', '' (\<lambda>t. [eff_type t, eff_value t]) 0 ws)
                          @ rp)))
         else Inr front)"

section \<open>build_carddb_ptcg.py: rows of a card\<close>

text \<open>The tuple \<open>(cardname, filteredname, description, hidden, card)\<close>.\<close>

record row =
  row_cardname :: string
  row_filteredname :: string
  row_description :: string
  row_hidden :: bool
  row_card :: card

text \<open>
  \<open>process_card\<close> (lines 111 to 117). \<open>clean_text\<close> is imported from
  \<open>common.card\<close>; the model takes it as a parameter.
  The description is computed before the first row is yielded, so an exception of
  \<open>gen_text\<close> leaves no row.
\<close>

definition process_card ::
  "(string \<Rightarrow> string) \<Rightarrow> card \<Rightarrow> card list \<Rightarrow> pyerror + row list"
where
  "process_card clean_text crd grp =
     (let unique = (length grp \<le> 1);
          setunique =
            (length (filter (\<lambda>c. set_id (card_set c) = set_id (card_set crd)) grp) \<le> 1)
      in case gen_text crd of
           Inl e \<Rightarrow> Inl e
         | Inr pieces \<Rightarrow>
             Inr (map (\<lambda>(cardname, hidden).
                         \<lparr>row_cardname = cardname,
                          row_filteredname = clean_text cardname,
                          row_description = concat pieces,
                          row_hidden = hidden,
                          row_card = mark_trait crd\<rparr>)
                      (gen_cardnames crd unique setunique)))"

section \<open>build_carddb_ptcg.py: grouping\<close>

text \<open>
  The \<open>defaultdict(list)\<close> named \<open>names\<close> keeps its keys in the order of their first
  insertion, so it is an association list. \<open>names_append names k c\<close> is
  \<open>names[k].append(c)\<close>.
\<close>

fun names_append ::
  "(string \<times> card list) list \<Rightarrow> string \<Rightarrow> card \<Rightarrow> (string \<times> card list) list"
where
  "names_append [] k c = [(k, [c])]"
| "names_append ((k', g) # names) k c =
     (if k' = k then (k', g @ [c]) # names else (k', g) # names_append names k c)"

text \<open>The loop \<open>for card in cards: names[clean_text(card['name'])].append(card)\<close>.\<close>

definition group_names ::
  "(string \<Rightarrow> string) \<Rightarrow> card list \<Rightarrow> (string \<times> card list) list"
where
  "group_names clean_text cards =
     foldl (\<lambda>names c. names_append names (clean_text (name c)) c) [] cards"

text \<open>\<open>group_pkmn_cards\<close> (lines 87 to 95): \<open>list(names.values())\<close>.\<close>

definition group_pkmn_cards :: "(string \<Rightarrow> string) \<Rightarrow> card list \<Rightarrow> card list list" where
  "group_pkmn_cards clean_text cards = map snd (group_names clean_text cards)"

text \<open>
  \<open>max(xs, key=f)\<close>: \<open>ValueError\<close> on an empty sequence; otherwise the running
  maximum starts at the first item and is replaced only by an item whose key is
  strictly greater.
\<close>

definition py_max :: "('a \<Rightarrow> 'k::linorder) \<Rightarrow> 'a list \<Rightarrow> pyerror + 'a" where
  "py_max key xs =
     (case xs of
        [] \<Rightarrow> Inl ValueError
      | x # rest \<Rightarrow> Inr (foldl (\<lambda>m y. if key m < key y then y else m) x rest))"

text \<open>A list built item by item, where building an item may raise.\<close>

fun map_err :: "('a \<Rightarrow> pyerror + 'b) \<Rightarrow> 'a list \<Rightarrow> pyerror + 'b list" where
  "map_err f [] = Inr []"
| "map_err f (x # xs) =
     (case f x of
        Inl e \<Rightarrow> Inl e
      | Inr y \<Rightarrow> (case map_err f xs of Inl e \<Rightarrow> Inl e | Inr ys \<Rightarrow> Inr (y # ys)))"

text \<open>\<open>group_other_cards\<close> (lines 97 to 109).\<close>

definition group_other_cards ::
  "(string \<Rightarrow> string) \<Rightarrow> card list \<Rightarrow> pyerror + card list list"
where
  "group_other_cards clean_text cards =
     map_err (\<lambda>grp. case py_max (\<lambda>c. releaseDate (card_set c)) grp of
                      Inl e \<Rightarrow> Inl e
                    | Inr m \<Rightarrow> Inr [m])
       (map snd (group_names clean_text cards))"

text \<open>
  \<open>group_cards\<close> (lines 76 to 85), with the sequence of \<open>fetch_cards()\<close> as the
  argument \<open>cards\<close>.
\<close>

definition group_cards :: "(string \<Rightarrow> string) \<Rightarrow> card list \<Rightarrow> pyerror + card list list" where
  "group_cards clean_text cards =
     (let pkmn_cards = filter (\<lambda>c. supertype c = Pokemon) cards;
          other_cards = filter (\<lambda>c. supertype c \<noteq> Pokemon) cards
      in case group_other_cards clean_text other_cards of
           Inl e \<Rightarrow> Inl e
         | Inr others \<Rightarrow> Inr (group_pkmn_cards clean_text pkmn_cards @ others))"

text \<open>The inner loop of \<open>iter_cards\<close>: the rows of one group.\<close>

definition group_rows :: "(string \<Rightarrow> string) \<Rightarrow> card list \<Rightarrow> pyerror + row list" where
  "group_rows clean_text grp =
     (case map_err (\<lambda>c. process_card clean_text c grp) grp of
        Inl e \<Rightarrow> Inl e
      | Inr rss \<Rightarrow> Inr (concat rss))"

text \<open>\<open>iter_cards\<close> (lines 53 to 56).\<close>

definition iter_cards :: "(string \<Rightarrow> string) \<Rightarrow> card list \<Rightarrow> pyerror + row list" where
  "iter_cards clean_text cards =
     (case group_cards clean_text cards of
        Inl e \<Rightarrow> Inl e
      | Inr groups \<Rightarrow>
          (case map_err (group_rows clean_text) groups of
             Inl e \<Rightarrow> Inl e
           | Inr rss \<Rightarrow> Inr (concat rss)))"

section \<open>build_carddb_ptcg.py: overrides and the insert loop\<close>

text \<open>\<open>get_hacks\<close> (lines 233 to 247); the two \<open>if\<close> statements run one after the other.\<close>

definition get_hacks :: "string \<Rightarrow> string \<Rightarrow> card \<Rightarrow> string \<times> string \<times> bool" where
  "get_hacks cardname filteredname crd =
     (let filteredname =
            (if name crd = ''Unown'' \<and> number crd = ''!''
             then filteredname @ ''exclamation'' else filteredname);
          filteredname =
            (if name crd = ''Unown'' \<and> number crd = ''?''
             then filteredname @ ''question'' else filteredname);
          skip =
            (name crd \<in> set [''Chansey ex'', ''Electabuzz ex'', ''Magmar ex'']
             \<and> cardname = name crd)
      in (cardname, filteredname, skip))"

text \<open>
  The loop of \<open>main\<close> (lines 40 to 51): the values \<open>(filteredname, name, text, hidden)\<close>
  of the \<open>INSERT\<close> statements executed, in order, each with the game tag
  \<open>CARD_GAME_PTCG\<close>. An exception leaves the \<open>with\<close> block, and the transaction is
  rolled back.
\<close>

type_synonym db_row = "string \<times> string \<times> string \<times> bool"

definition insert_of :: "row \<Rightarrow> db_row list" where
  "insert_of r =
     (case get_hacks (row_cardname r) (row_filteredname r) (row_card r) of
        (cardname, filteredname, skip) \<Rightarrow>
          if skip then [] else [(filteredname, cardname, row_description r, row_hidden r)])"

definition main :: "(string \<Rightarrow> string) \<Rightarrow> card list \<Rightarrow> pyerror + db_row list" where
  "main clean_text cards =
     (case iter_cards clean_text cards of
        Inl e \<Rightarrow> Inl e
      | Inr rows \<Rightarrow> Inr (concat (map insert_of rows)))"

section \<open>common/youtube.py: the message length check\<close>

text \<open>
  Here the text is encoded, so a \<open>str\<close> is the list of its code points; a \<open>bytes\<close>
  object is the list of its bytes.
\<close>

datatype pyval =
    PyStr "nat list"
  | PyBytes "nat list"
  | PyInt int
  | PyBool bool

text \<open>
  \<open>str.encode('utf-16-le')\<close> with the default error handler \<open>strict\<close>: a code point
  of the surrogate range U+D800 to U+DFFF cannot be encoded; a code point below
  U+10000 is one 16-bit unit, any other a surrogate pair; each unit is written low
  byte first.
\<close>

definition unit_le :: "nat \<Rightarrow> nat list" where
  "unit_le u = [u mod 256, u div 256]"

fun encode_utf_16_le :: "nat list \<Rightarrow> pyerror + nat list" where
  "encode_utf_16_le [] = Inr []"
| "encode_utf_16_le (c # cs) =
     (if 0xD800 \<le> c \<and> c \<le> 0xDFFF then Inl UnicodeEncodeError
      else
        (case encode_utf_16_le cs of
           Inl e \<Rightarrow> Inl e
         | Inr bs \<Rightarrow>
             Inr ((if c < 0x10000 then unit_le c
                   else unit_le (0xD800 + (c - 0x10000) div 0x400)
                        @ unit_le (0xDC00 + (c - 0x10000) mod 0x400)) @ bs)))"

text \<open>
  \<open>a // b\<close>: defined on integers (a \<open>bool\<close> counts as 0 or 1), and division by zero
  raises \<open>ZeroDivisionError\<close>; \<open>str\<close> and \<open>bytes\<close> have no floor division, and the
  interpreter raises \<open>TypeError\<close>.
\<close>

fun as_int :: "pyval \<Rightarrow> int option" where
  "as_int (PyInt i) = Some i"
| "as_int (PyBool b) = Some (if b then 1 else 0)"
| "as_int _ = None"

definition floordiv :: "pyval \<Rightarrow> pyval \<Rightarrow> pyerror + pyval" where
  "floordiv a b =
     (case (as_int a, as_int b) of
        (Some i, Some j) \<Rightarrow> if j = 0 then Inl ZeroDivisionError else Inr (PyInt (i div j))
      | _ \<Rightarrow> Inl TypeError)"

text \<open>\<open>a <= b\<close> between an integer and an integer; any other pair met here raises.\<close>

definition py_le :: "pyval \<Rightarrow> pyval \<Rightarrow> pyerror + bool" where
  "py_le a b =
     (case (as_int a, as_int b) of
        (Some i, Some j) \<Rightarrow> Inr (i \<le> j)
      | _ \<Rightarrow> Inl TypeError)"

text \<open>\<open>check_message_length\<close> (lines 109 to 112).\<close>

definition check_message_length :: "nat list \<Rightarrow> int \<Rightarrow> pyerror + bool" where
  "check_message_length message max_len =
     (case encode_utf_16_le message of
        Inl e \<Rightarrow> Inl e
      | Inr bs \<Rightarrow>
          (case floordiv (PyBytes bs) (PyInt 2) of
             Inl e \<Rightarrow> Inl e
           | Inr len \<Rightarrow> py_le len (PyInt max_len)))"

section \<open>Sample records\<close>

text \<open>A card with the given name, supertype, number, set and release date, and no optional key.\<close>

definition plain_card :: "string \<Rightarrow> string \<Rightarrow> string \<Rightarrow> string \<Rightarrow> string \<Rightarrow> card" where
  "plain_card nm st num sid rd =
     \<lparr>name = nm, supertype = st, number = num,
      card_set = \<lparr>set_id = sid, ptcgoCode = None, releaseDate = rd\<rparr>,
      types = None, hp = None, subtypes = None, evolvesFrom = None, rules = None,
      ancientTrait = None, abilities = None, attacks = None,
      weaknesses = None, resistances = None, retreatCost = None\<rparr>"

definition pikachu_base :: card where
  "pikachu_base = plain_card ''Pikachu'' Pokemon ''58'' ''base1'' ''1999/01/09''"

definition pikachu_jungle :: card where
  "pikachu_jungle = plain_card ''Pikachu'' Pokemon ''60'' ''base2'' ''1999/06/16''"

definition unown_excl :: card where
  "unown_excl = plain_card ''Unown'' Pokemon ''!'' ''ex8'' ''2005/08/22''"

definition unown_quest :: card where
  "unown_quest = plain_card ''Unown'' Pokemon ''?'' ''ex8'' ''2005/08/22''"

definition chansey_ex :: card where
  "chansey_ex = plain_card ''Chansey ex'' Pokemon ''96'' ''ex1'' ''2003/07/01''"

definition potion_base :: card where
  "potion_base = plain_card ''Potion'' ''Trainer'' ''94'' ''base1'' ''1999/01/09''"

definition potion_bw :: card where
  "potion_bw = plain_card ''Potion'' ''Trainer'' ''100'' ''bw1'' ''2011/04/25''"

definition potion_swsh :: card where
  "potion_swsh = plain_card ''Potion'' ''Trainer'' ''177'' ''swsh1'' ''2011/04/25''"

section \<open>Properties of the cost notation\<close>

lemma append_abbrs_eq:
  "\<forall>t\<in>set xs. TYPEABBR t \<noteq> None \<Longrightarrow>
   append_abbrs res xs = Inr (res @ map (\<lambda>t. the (TYPEABBR t)) xs)"
  by (induction xs arbitrary: res) auto

lemma append_abbrs_ok:
  "(\<exists>r. append_abbrs res xs = Inr r) \<longleftrightarrow> (\<forall>t\<in>set xs. TYPEABBR t \<noteq> None)"
  by (induction xs arbitrary: res) (auto split: option.splits)

lemma append_abbrs_Inr:
  "append_abbrs res xs = Inr r \<Longrightarrow> r = res @ map (\<lambda>t. the (TYPEABBR t)) xs"
  using append_abbrs_ok [of res xs] append_abbrs_eq [of xs res] by auto

lemma append_abbrs_Inl:
  "append_abbrs res xs = Inl e \<Longrightarrow> \<exists>t\<in>set xs. TYPEABBR t = None \<and> e = KeyError t"
  by (induction xs arbitrary: res) (auto split: option.splits)

lemma TYPEABBR_Colorless: "TYPEABBR ''Colorless'' = Some ''C''"
  by (simp add: TYPEABBR_def)

lemma str_0: "str 0 = ''0''" by (simp add: str.simps)

lemma filter_Colorless_length:
  "length (filter (\<lambda>i. i = ''Colorless'') (filter (\<lambda>i. i \<noteq> ''Free'') costs)) = count_list costs ''Colorless''"
  by (induction costs) auto

lemma no_Colorless_filter:
  "count_list xs ''Colorless'' = 0 \<Longrightarrow> filter (\<lambda>i. i \<noteq> ''Free'' \<and> i \<noteq> ''Colorless'') xs = filter (\<lambda>i. i \<noteq> ''Free'') xs"
  by (induction xs) (auto split: if_splits)

lemma filter_Free_Colorless:
  "filter (\<lambda>i. i \<noteq> ''Colorless'') (filter (\<lambda>i. i \<noteq> ''Free'') costs) =
   filter (\<lambda>i. i \<noteq> ''Free'' \<and> i \<noteq> ''Colorless'') costs"
  by (induction costs) auto

lemma cost_counted:
  assumes "count_list costs ''Colorless'' \<noteq> 0 \<or> filter (\<lambda>i. i \<noteq> ''Free'') costs = []"
  shows "cost costs True =
         (case append_abbrs [str (count_list costs ''Colorless'')]
                 (filter (\<lambda>i. i \<noteq> ''Free'' \<and> i \<noteq> ''Colorless'') costs) of
            Inl e \<Rightarrow> Inl e | Inr r \<Rightarrow> Inr (concat r))"
  unfolding cost_def Let_def filter_Colorless_length filter_Free_Colorless
  using assms by simp

lemma cost_uncounted:
  assumes "\<not> (count_list costs ''Colorless'' \<noteq> 0 \<or> filter (\<lambda>i. i \<noteq> ''Free'') costs = [])"
  shows "cost costs True =
         (case append_abbrs [] (filter (\<lambda>i. i \<noteq> ''Free'') costs) of
            Inl e \<Rightarrow> Inl e | Inr r \<Rightarrow> Inr (concat r))"
  unfolding cost_def Let_def filter_Colorless_length filter_Free_Colorless
  using assms by simp

text \<open>
  C6, as amended. The token list Colorless, Colorless, Fire is rendered \<open>2R\<close>, and
  the token list Fire is rendered \<open>R\<close>. In general, whenever the renderer returns, the
  result is the count part followed by the letters of the tokens other than \<open>Free\<close>
  and \<open>Colorless\<close>, in order; the count part is \<open>0\<close> exactly when no token other than
  \<open>Free\<close> is in the list, the decimal count of the \<open>Colorless\<close> tokens when that
  count is positive, and empty otherwise.
\<close>

theorem cost_count_rendering:
  "cost [''Colorless'', ''Colorless'', ''Fire''] True = Inr ''2R''
   \<and> cost [''Fire''] True = Inr ''R''
   \<and> (\<forall>costs s. cost costs True = Inr s \<longrightarrow>
        s = (if filter (\<lambda>i. i \<noteq> ''Free'') costs = [] then ''0''
             else if count_list costs ''Colorless'' \<noteq> 0 then str (count_list costs ''Colorless'')
             else [])
            @ concat (map (\<lambda>t. the (TYPEABBR t))
                 (filter (\<lambda>i. i \<noteq> ''Free'' \<and> i \<noteq> ''Colorless'') costs)))"
proof (intro conjI allI impI)
  show "cost [''Colorless'', ''Colorless'', ''Fire''] True = Inr ''2R''"
    by (simp add: cost_def TYPEABBR_def str.simps)
  show "cost [''Fire''] True = Inr ''R''"
    by (simp add: cost_def TYPEABBR_def str.simps)
next
  fix costs s
  assume ok: "cost costs True = Inr s"
  let ?cs = "filter (\<lambda>i. i \<noteq> ''Free'') costs"
  let ?n = "count_list costs ''Colorless''"
  let ?rest = "filter (\<lambda>i. i \<noteq> ''Free'' \<and> i \<noteq> ''Colorless'') costs"
  show "s = (if ?cs = [] then ''0'' else if ?n \<noteq> 0 then str ?n else []) @
            concat (map (\<lambda>t. the (TYPEABBR t)) ?rest)"
  proof (cases "?n \<noteq> 0 \<or> ?cs = []")
    case True
    from cost_counted [OF True] ok
    obtain r where r: "append_abbrs [str ?n] ?rest = Inr r" and s: "s = concat r"
      by (cases "append_abbrs [str ?n] ?rest") simp_all
    have n0: "?cs = [] \<Longrightarrow> ?n = 0"
      using filter_Colorless_length [of costs] by simp
    have "r = [str ?n] @ map (\<lambda>t. the (TYPEABBR t)) ?rest"
      by (rule append_abbrs_Inr [OF r])
    with s have "s = str ?n @ concat (map (\<lambda>t. the (TYPEABBR t)) ?rest)"
      by simp
    with True n0 show ?thesis
      by (cases "?cs = []") (simp_all add: str_0)
  next
    case False
    from cost_uncounted [OF False] ok
    obtain r where r: "append_abbrs [] ?cs = Inr r" and s: "s = concat r"
      by (cases "append_abbrs [] ?cs") simp_all
    from False have eq: "?rest = ?cs" by (simp add: no_Colorless_filter)
    have "r = [] @ map (\<lambda>t. the (TYPEABBR t)) ?cs"
      by (rule append_abbrs_Inr [OF r])
    with s eq False show ?thesis by simp
  qed
qed

text \<open>
  C6 as stated fails: the token list Fire has no \<open>Colorless\<close> token and is not empty,
  so no count is written, and the result is not \<open>0R\<close>.
\<close>

theorem cost_fire_counterexample: "cost [''Fire''] True \<noteq> Inr ''0R''"
  by (simp add: cost_def TYPEABBR_def)

text \<open>The amended C6 at two concrete lists, one of them with only a \<open>Free\<close> token.\<close>

theorem cost_count_rendering_witness:
  "cost [''Free'', ''Colorless'', ''Water'', ''Colorless''] True = Inr ''2W''
   \<and> ''2W'' = str 2 @ concat [''W'']
   \<and> cost [''Free''] True = Inr ''0''"
proof -
  have h: "cost [''Free'', ''Colorless'', ''Water'', ''Colorless''] True = Inr ''2W''"
    by (simp add: cost_def TYPEABBR_def str.simps)
  have h0: "cost [''Free''] True = Inr ''0''"
    by (simp add: cost_def TYPEABBR_def str.simps)
  from cost_count_rendering
  have "\<forall>costs s. cost costs True = Inr s \<longrightarrow>
        s = (if filter (\<lambda>i. i \<noteq> ''Free'') costs = [] then ''0''
             else if count_list costs ''Colorless'' \<noteq> 0 then str (count_list costs ''Colorless'')
             else [])
            @ concat (map (\<lambda>t. the (TYPEABBR t))
                 (filter (\<lambda>i. i \<noteq> ''Free'' \<and> i \<noteq> ''Colorless'') costs))"
    by blast
  from this [rule_format, OF h] h h0 show ?thesis
    by (simp add: TYPEABBR_def str.simps)
qed

text \<open>
  C7. Called with the default \<open>colorlesscount=True\<close>, as every call of the script
  does, the renderer raises exactly when some token other than \<open>Free\<close> and
  \<open>Colorless\<close> is no key of \<open>TYPEABBR\<close>; the exception is then a \<open>KeyError\<close>, and
  no other exception is possible. When every such token is a key it returns a string.
\<close>

theorem cost_keyerror_iff:
  "((\<exists>t. cost costs True = Inl (KeyError t)) \<longleftrightarrow>
      (\<exists>t\<in>set costs. t \<noteq> ''Free'' \<and> t \<noteq> ''Colorless'' \<and> TYPEABBR t = None))
   \<and> ((\<forall>t\<in>set costs. t \<noteq> ''Free'' \<longrightarrow> t \<noteq> ''Colorless'' \<longrightarrow> TYPEABBR t \<noteq> None) \<longrightarrow>
        (\<exists>s. cost costs True = Inr s))
   \<and> (\<forall>e. cost costs True = Inl e \<longrightarrow> (\<exists>t. e = KeyError t))"
proof -
  let ?cs = "filter (\<lambda>i. i \<noteq> ''Free'') costs"
  let ?rest = "filter (\<lambda>i. i \<noteq> ''Free'' \<and> i \<noteq> ''Colorless'') costs"
  let ?bad = "\<exists>t\<in>set costs. t \<noteq> ''Free'' \<and> t \<noteq> ''Colorless'' \<and> TYPEABBR t = None"
  obtain res xs where
    st: "cost costs True =
           (case append_abbrs res xs of Inl e \<Rightarrow> Inl e | Inr r \<Rightarrow> Inr (concat r))"
    and xs: "xs = ?rest \<or> xs = ?cs"
  proof (cases "count_list costs ''Colorless'' \<noteq> 0 \<or> ?cs = []")
    case True
    from cost_counted [OF True] show ?thesis by (rule that) simp
  next
    case False
    from cost_uncounted [OF False] show ?thesis by (rule that) simp
  qed
  have ne: "t \<noteq> ''Colorless''" if "TYPEABBR t = None" for t
    using that TYPEABBR_Colorless by (metis option.distinct(1))
  have bad_iff: "(\<exists>t\<in>set xs. TYPEABBR t = None) \<longleftrightarrow> ?bad"
  proof (cases "xs = ?rest")
    case True
    show ?thesis unfolding True set_filter by blast
  next
    case False
    with xs have eq: "xs = ?cs" by blast
    show ?thesis unfolding eq set_filter using ne by blast
  qed
  have a: "(\<exists>e. cost costs True = Inl e) \<longleftrightarrow> ?bad"
  proof
    assume "\<exists>e. cost costs True = Inl e"
    then obtain e where "append_abbrs res xs = Inl e"
      unfolding st by (cases "append_abbrs res xs") simp_all
    from append_abbrs_Inl [OF this] bad_iff show ?bad by blast
  next
    assume ?bad
    with bad_iff have "\<not> (\<exists>r. append_abbrs res xs = Inr r)"
      by (simp add: append_abbrs_ok)
    then show "\<exists>e. cost costs True = Inl e"
      unfolding st by (cases "append_abbrs res xs") simp_all
  qed
  have b: "\<exists>t. e = KeyError t" if "cost costs True = Inl e" for e
  proof -
    from that have "append_abbrs res xs = Inl e"
      unfolding st by (cases "append_abbrs res xs") simp_all
    from append_abbrs_Inl [OF this] show ?thesis by blast
  qed
  have c: "\<exists>s. cost costs True = Inr s" if "\<not> ?bad"
    using a that by (cases "cost costs True") auto
  have d: "(\<exists>t. cost costs True = Inl (KeyError t)) \<longleftrightarrow> ?bad"
    using a b by metis
  from d b c show ?thesis by blast
qed

text \<open>C7 at a list of known tokens and at a list with the unknown token \<open>Shadow\<close>.\<close>

theorem cost_keyerror_iff_witness:
  "(\<exists>s. cost [''Free'', ''Colorless'', ''Water''] True = Inr s)
   \<and> (\<exists>t. cost [''Fire'', ''Shadow''] True = Inl (KeyError t))"
  using cost_keyerror_iff [of "[''Free'', ''Colorless'', ''Water'']"]
        cost_keyerror_iff [of "[''Fire'', ''Shadow'']"]
  by (simp add: TYPEABBR_def)

text \<open>With \<open>colorlesscount=False\<close>, which no call uses, \<open>Free\<close> is looked up like any token.\<close>

lemma cost_no_count_mode: "cost [''Free''] False = Inl (KeyError ''Free'')"
  by (simp add: cost_def TYPEABBR_def)


section \<open>Properties of the name generator\<close>

text \<open>
  In the statements below \<open>N\<close> is \<open>length grp\<close>, the size of the group, and \<open>M\<close> is
  the number of cards of the group with the set identifier of the card, as
  \<open>process_card\<close> computes them; the second component of a pair of \<open>gen_cardnames\<close>
  is the flag \<open>hidden\<close> of the row.
\<close>

lemma member_length_ge1: "x \<in> set xs \<Longrightarrow> length xs \<le> 1 \<longleftrightarrow> length xs = 1"
  by (cases xs) auto

lemma member_filter_length:
  "x \<in> set xs \<Longrightarrow> length (filter (\<lambda>c. f c = f x) xs) \<le> 1 \<longleftrightarrow> length (filter (\<lambda>c. f c = f x) xs) = 1"
  by (rule member_length_ge1 [of x]) simp

lemma full_name_neq_set_name: "n @ '' ('' @ sc @ '' '' @ num @ '')'' \<noteq> n @ '' ('' @ sc @ '')''"
  by simp

lemma full_name_neq_name: "n @ '' ('' @ sc @ '' '' @ num @ '')'' \<noteq> n"
  by simp

lemma set_name_neq_name: "n @ '' ('' @ sc @ '')'' \<noteq> n"
  by simp

text \<open>
  C1, as amended. For a creature card of a group, the name generator emits the row
  \<open>Name (SET NUM)\<close> exactly once, and the hidden flag of that row is true exactly when
  \<open>N = 1\<close> or \<open>M = 1\<close>.
\<close>

theorem full_name_row:
  assumes "supertype crd = Pokemon" and "crd \<in> set grp"
  shows "filter (\<lambda>(n, hidden). n = name crd @ '' ('' @ setcode crd @ '' '' @ number crd @ '')'')
           (gen_cardnames crd (length grp \<le> 1)
              (length (filter (\<lambda>c. set_id (card_set c) = set_id (card_set crd)) grp) \<le> 1))
         = [(name crd @ '' ('' @ setcode crd @ '' '' @ number crd @ '')'',
             length grp = 1
             \<or> length (filter (\<lambda>c. set_id (card_set c) = set_id (card_set crd)) grp) = 1)]"
  using assms member_length_ge1 [OF assms(2)]
    member_filter_length [OF assms(2), of "\<lambda>c. set_id (card_set c)"]
  by (simp add: gen_cardnames_def)

text \<open>
  C2, as amended. For a creature card of a group, the row \<open>Name (SET)\<close> is emitted if
  and only if \<open>M = 1\<close>, and when emitted its hidden flag is true if and only if
  \<open>N = 1\<close>.
\<close>

theorem set_name_row:
  assumes "supertype crd = Pokemon" and "crd \<in> set grp"
  shows "filter (\<lambda>(n, hidden). n = name crd @ '' ('' @ setcode crd @ '')'')
           (gen_cardnames crd (length grp \<le> 1)
              (length (filter (\<lambda>c. set_id (card_set c) = set_id (card_set crd)) grp) \<le> 1))
         = (if length (filter (\<lambda>c. set_id (card_set c) = set_id (card_set crd)) grp) = 1
            then [(name crd @ '' ('' @ setcode crd @ '')'', length grp = 1)] else [])"
  using assms member_length_ge1 [OF assms(2)]
    member_filter_length [OF assms(2), of "\<lambda>c. set_id (card_set c)"]
  by (simp add: gen_cardnames_def)

text \<open>The bare row of a creature card; the lemma serves the card and its group.\<close>

lemma gen_cardnames_bare:
  assumes "supertype crd = Pokemon" and "crd \<in> set grp"
  shows "filter (\<lambda>(n, hidden). n = name crd)
           (gen_cardnames crd (length grp \<le> 1)
              (length (filter (\<lambda>c. set_id (card_set c) = set_id (card_set crd)) grp) \<le> 1))
         = (if length grp = 1 then [(name crd, False)] else [])"
  using assms member_length_ge1 [OF assms(2)]
    member_filter_length [OF assms(2), of "\<lambda>c. set_id (card_set c)"]
  by (simp add: gen_cardnames_def)

text \<open>
  C3, as amended. For a creature card of a group, the bare row \<open>Name\<close> is emitted if and
  only if \<open>N = 1\<close>, and when emitted its hidden flag is false.
\<close>

theorem bare_name_row:
  assumes "supertype crd = Pokemon" and "crd \<in> set grp"
  shows "filter (\<lambda>(n, hidden). n = name crd)
           (gen_cardnames crd (length grp \<le> 1)
              (length (filter (\<lambda>c. set_id (card_set c) = set_id (card_set crd)) grp) \<le> 1))
         = (if length grp = 1 then [(name crd, False)] else [])"
  using assms by (rule gen_cardnames_bare)

text \<open>The three rows of a creature card that is alone in its group.\<close>

lemma pikachu_names:
  "gen_cardnames pikachu_base (length [pikachu_base] \<le> 1)
     (length (filter (\<lambda>c. set_id (card_set c) = set_id (card_set pikachu_base)) [pikachu_base]) \<le> 1)
   = [(''Pikachu (BASE1 58)'', True), (''Pikachu (BASE1)'', True), (''Pikachu'', False)]"
  by (simp add: gen_cardnames_def pikachu_base_def plain_card_def setcode_def upper_def upper_char_def)


text \<open>
  C1 as stated fails: for a card alone in its group (\<open>N = 1\<close>, \<open>M = 1\<close>) the hidden
  flag of the row \<open>Name (SET NUM)\<close> is true, although not both \<open>N > 1\<close> and \<open>M > 1\<close>.
\<close>

theorem full_name_hidden_counterexample:
  "gen_cardnames pikachu_base (length [pikachu_base] \<le> 1)
     (length (filter (\<lambda>c. set_id (card_set c) = set_id (card_set pikachu_base)) [pikachu_base]) \<le> 1) ! 0
   = (''Pikachu (BASE1 58)'', True)
   \<and> \<not> (1 < length [pikachu_base]
          \<and> 1 < length (filter (\<lambda>c. set_id (card_set c) = set_id (card_set pikachu_base)) [pikachu_base]))"
  using pikachu_names by simp

text \<open>
  C2 as stated fails: for a card alone in its group the row \<open>Name (SET)\<close> is emitted
  with the hidden flag true, so it is not visible although \<open>N = 1\<close>.
\<close>

theorem set_name_hidden_counterexample:
  "gen_cardnames pikachu_base (length [pikachu_base] \<le> 1)
     (length (filter (\<lambda>c. set_id (card_set c) = set_id (card_set pikachu_base)) [pikachu_base]) \<le> 1) ! 1
   = (''Pikachu (BASE1)'', True)
   \<and> length [pikachu_base] = 1"
  using pikachu_names by simp

text \<open>
  C3 as stated fails: for a card alone in its group the bare row is emitted with the
  hidden flag false.
\<close>

theorem bare_name_hidden_counterexample:
  "gen_cardnames pikachu_base (length [pikachu_base] \<le> 1)
     (length (filter (\<lambda>c. set_id (card_set c) = set_id (card_set pikachu_base)) [pikachu_base]) \<le> 1) ! 2
   = (''Pikachu'', False)"
  using pikachu_names by simp

lemma pikachu_pair_names:
  "gen_cardnames pikachu_base (length [pikachu_base, pikachu_jungle] \<le> 1)
     (length (filter (\<lambda>c. set_id (card_set c) = set_id (card_set pikachu_base))
        [pikachu_base, pikachu_jungle]) \<le> 1)
   = [(''Pikachu (BASE1 58)'', True), (''Pikachu (BASE1)'', False)]"
  by (simp add: gen_cardnames_def pikachu_base_def pikachu_jungle_def plain_card_def
        setcode_def upper_def upper_char_def)

lemma pikachu_base_fields:
  "supertype pikachu_base = Pokemon" "name pikachu_base = ''Pikachu''"
  "setcode pikachu_base = ''BASE1''" "number pikachu_base = ''58''"
  by (simp_all add: pikachu_base_def plain_card_def setcode_def upper_def upper_char_def)

lemma sample_same_set:
  "set_id (card_set pikachu_base) = ''base1''" "set_id (card_set pikachu_jungle) = ''base2''"
  by (simp_all add: pikachu_base_def pikachu_jungle_def plain_card_def)

text \<open>The amended C1 at the first of two cards of one name in different sets.\<close>

theorem full_name_row_witness:
  "supertype pikachu_base = Pokemon \<and> pikachu_base \<in> set [pikachu_base, pikachu_jungle]
   \<and> filter (\<lambda>(n, hidden). n = ''Pikachu (BASE1 58)'')
        (gen_cardnames pikachu_base (length [pikachu_base, pikachu_jungle] \<le> 1)
           (length (filter (\<lambda>c. set_id (card_set c) = set_id (card_set pikachu_base))
              [pikachu_base, pikachu_jungle]) \<le> 1))
      = [(''Pikachu (BASE1 58)'', True)]"
proof -
  have h1: "supertype pikachu_base = Pokemon"
    by (rule pikachu_base_fields)
  have h2: "pikachu_base \<in> set [pikachu_base, pikachu_jungle]"
    by simp
  from full_name_row [OF h1 h2] h1 h2 show ?thesis
    by (simp add: pikachu_base_fields sample_same_set)
qed

text \<open>The amended C2 at the same card: \<open>M = 1\<close> and \<open>N = 2\<close>, so the row is not hidden.\<close>

theorem set_name_row_witness:
  "supertype pikachu_base = Pokemon \<and> pikachu_base \<in> set [pikachu_base, pikachu_jungle]
   \<and> filter (\<lambda>(n, hidden). n = ''Pikachu (BASE1)'')
        (gen_cardnames pikachu_base (length [pikachu_base, pikachu_jungle] \<le> 1)
           (length (filter (\<lambda>c. set_id (card_set c) = set_id (card_set pikachu_base))
              [pikachu_base, pikachu_jungle]) \<le> 1))
      = [(''Pikachu (BASE1)'', False)]"
proof -
  have h1: "supertype pikachu_base = Pokemon"
    by (rule pikachu_base_fields)
  have h2: "pikachu_base \<in> set [pikachu_base, pikachu_jungle]"
    by simp
  from set_name_row [OF h1 h2] h1 h2 show ?thesis
    by (simp add: pikachu_base_fields sample_same_set)
qed

text \<open>The amended C3 at a card alone in its group.\<close>

theorem bare_name_row_witness:
  "supertype pikachu_base = Pokemon \<and> pikachu_base \<in> set [pikachu_base]
   \<and> filter (\<lambda>(n, hidden). n = ''Pikachu'')
        (gen_cardnames pikachu_base (length [pikachu_base] \<le> 1)
           (length (filter (\<lambda>c. set_id (card_set c) = set_id (card_set pikachu_base))
              [pikachu_base]) \<le> 1))
      = [(''Pikachu'', False)]"
proof -
  have h1: "supertype pikachu_base = Pokemon"
    by (rule pikachu_base_fields)
  have h2: "pikachu_base \<in> set [pikachu_base]"
    by simp
  from bare_name_row [OF h1 h2] h1 h2 show ?thesis
    by (simp add: pikachu_base_fields)
qed

text \<open>
  C4. For a card of any other supertype the name generator emits exactly one row: the
  bare card name, with the hidden flag false.
\<close>

theorem gen_cardnames_other:
  assumes "supertype crd \<noteq> Pokemon"
  shows "gen_cardnames crd unique setunique = [(name crd, False)]"
  using assms by (simp add: gen_cardnames_def)

lemma potion_fields: "supertype potion_base \<noteq> Pokemon" "name potion_base = ''Potion''"
  by (simp_all add: potion_base_def plain_card_def Pokemon_def)

text \<open>C4 at a Trainer card.\<close>

theorem gen_cardnames_other_witness:
  "gen_cardnames potion_base True False = [(''Potion'', False)]"
  using gen_cardnames_other [of potion_base True False]
  by (simp add: potion_fields)

text \<open>The rows of \<open>process_card\<close> carry the pairs of the name generator, in order.\<close>

lemma process_card_names:
  "process_card clean_text crd grp = Inr rows \<Longrightarrow>
   map (\<lambda>r. (row_cardname r, row_hidden r)) rows =
   gen_cardnames crd (length grp \<le> 1)
     (length (filter (\<lambda>c. set_id (card_set c) = set_id (card_set crd)) grp) \<le> 1)"
  by (auto simp: process_card_def Let_def o_def split_def split: sum.splits)

section \<open>Properties of the overrides\<close>

lemma suffixes_differ: "f1 @ ''exclamation'' \<noteq> f2 @ ''question''"
proof
  assume "f1 @ ''exclamation'' = f2 @ ''question''"
  then have "rev (f1 @ ''exclamation'') = rev (f2 @ ''question'')"
    by (rule arg_cong)
  then show False by simp
qed

text \<open>
  C9. The override step returns the display name unchanged; it appends
  \<open>exclamation\<close> to the filtered name of a card named Unown with number \<open>!\<close>, and
  \<open>question\<close> for number \<open>?\<close>, so the two results differ whatever the filtered names
  were, and leaves every other filtered name unchanged; it sets \<open>skip\<close> exactly for a
  row of a card named Chansey ex, Electabuzz ex or Magmar ex whose display name is the
  card name. The insert loop drops exactly the rows with \<open>skip\<close> set and inserts every
  other row with these names, its description and its hidden flag.
\<close>

theorem get_hacks_overrides:
  "get_hacks cardname filteredname crd =
     (cardname,
      filteredname @
        (if name crd = ''Unown'' \<and> number crd = ''!'' then ''exclamation''
         else if name crd = ''Unown'' \<and> number crd = ''?'' then ''question''
         else []),
      name crd \<in> {''Chansey ex'', ''Electabuzz ex'', ''Magmar ex''} \<and> cardname = name crd)
   \<and> (name crd = ''Unown'' \<and> number crd = ''!'' \<and> name crd' = ''Unown'' \<and> number crd' = ''?''
        \<longrightarrow> fst (snd (get_hacks cardname filteredname crd))
            \<noteq> fst (snd (get_hacks cardname' filteredname' crd')))
   \<and> insert_of r =
       (if name (row_card r) \<in> {''Chansey ex'', ''Electabuzz ex'', ''Magmar ex''}
           \<and> row_cardname r = name (row_card r)
        then []
        else [(row_filteredname r @
                 (if name (row_card r) = ''Unown'' \<and> number (row_card r) = ''!''
                  then ''exclamation''
                  else if name (row_card r) = ''Unown'' \<and> number (row_card r) = ''?''
                  then ''question''
                  else []),
               row_cardname r, row_description r, row_hidden r)])"
proof (intro conjI impI)
  show a: "\<And>cardname filteredname crd. get_hacks cardname filteredname crd =
     (cardname,
      filteredname @
        (if name crd = ''Unown'' \<and> number crd = ''!'' then ''exclamation''
         else if name crd = ''Unown'' \<and> number crd = ''?'' then ''question''
         else []),
      name crd \<in> {''Chansey ex'', ''Electabuzz ex'', ''Magmar ex''} \<and> cardname = name crd)"
    by (simp add: get_hacks_def)
  show "fst (snd (get_hacks cardname filteredname crd))
        \<noteq> fst (snd (get_hacks cardname' filteredname' crd'))"
    if "name crd = ''Unown'' \<and> number crd = ''!'' \<and> name crd' = ''Unown'' \<and> number crd' = ''?''"
    using that suffixes_differ [of filteredname filteredname'] by (simp add: a)
  show "insert_of r =
       (if name (row_card r) \<in> {''Chansey ex'', ''Electabuzz ex'', ''Magmar ex''}
           \<and> row_cardname r = name (row_card r)
        then []
        else [(row_filteredname r @
                 (if name (row_card r) = ''Unown'' \<and> number (row_card r) = ''!''
                  then ''exclamation''
                  else if name (row_card r) = ''Unown'' \<and> number (row_card r) = ''?''
                  then ''question''
                  else []),
               row_cardname r, row_description r, row_hidden r)])"
    unfolding insert_of_def a by simp
qed


lemma unown_fields:
  "name unown_excl = ''Unown''" "number unown_excl = ''!''"
  "name unown_quest = ''Unown''" "number unown_quest = ''?''"
  "name chansey_ex = ''Chansey ex''" "number chansey_ex = ''96''"
  by (simp_all add: unown_excl_def unown_quest_def chansey_ex_def plain_card_def)

text \<open>
  C9 at the two Unown cards of one set, with one filtered name for both, and at the
  bare and the qualified row of a Chansey ex card.
\<close>

theorem get_hacks_overrides_witness:
  "name unown_excl = ''Unown'' \<and> number unown_excl = ''!''
   \<and> name unown_quest = ''Unown'' \<and> number unown_quest = ''?''
   \<and> get_hacks ''Unown (EX8 !)'' ''unownex8'' unown_excl
       = (''Unown (EX8 !)'', ''unownex8exclamation'', False)
   \<and> get_hacks ''Unown (EX8 ?)'' ''unownex8'' unown_quest
       = (''Unown (EX8 ?)'', ''unownex8question'', False)
   \<and> fst (snd (get_hacks ''Unown (EX8 !)'' ''unownex8'' unown_excl))
       \<noteq> fst (snd (get_hacks ''Unown (EX8 ?)'' ''unownex8'' unown_quest))
   \<and> get_hacks ''Chansey ex'' ''chanseyex'' chansey_ex = (''Chansey ex'', ''chanseyex'', True)
   \<and> get_hacks ''Chansey ex (RS 96)'' ''chanseyexrs96'' chansey_ex
       = (''Chansey ex (RS 96)'', ''chanseyexrs96'', False)"
  using get_hacks_overrides
          [of "''Unown (EX8 !)''" "''unownex8''" unown_excl unown_quest
              "''Unown (EX8 ?)''" "''unownex8''"]
        get_hacks_overrides [of "''Unown (EX8 ?)''" "''unownex8''" unown_quest]
        get_hacks_overrides [of "''Chansey ex''" "''chanseyex''" chansey_ex]
        get_hacks_overrides [of "''Chansey ex (RS 96)''" "''chanseyexrs96''" chansey_ex]
  by (simp add: unown_fields)

section \<open>Properties of the message length check\<close>

lemma encode_result:
  "(\<exists>c\<in>set message. 0xD800 \<le> c \<and> c \<le> 0xDFFF) \<and> encode_utf_16_le message = Inl UnicodeEncodeError
   \<or> \<not> (\<exists>c\<in>set message. 0xD800 \<le> c \<and> c \<le> 0xDFFF) \<and> (\<exists>bs. encode_utf_16_le message = Inr bs)"
proof (induction message)
  case Nil
  show ?case by simp
next
  case (Cons c cs)
  show ?case
  proof (cases "0xD800 \<le> c \<and> c \<le> 0xDFFF")
    case True
    then show ?thesis by simp
  next
    case False
    from Cons.IH show ?thesis
    proof
      assume "(\<exists>c\<in>set cs. 0xD800 \<le> c \<and> c \<le> 0xDFFF) \<and> encode_utf_16_le cs = Inl UnicodeEncodeError"
      with False show ?thesis by simp
    next
      assume "\<not> (\<exists>c\<in>set cs. 0xD800 \<le> c \<and> c \<le> 0xDFFF) \<and> (\<exists>bs. encode_utf_16_le cs = Inr bs)"
      with False show ?thesis by auto
    qed
  qed
qed

lemma encode_surrogate:
  "\<exists>c\<in>set message. 0xD800 \<le> c \<and> c \<le> 0xDFFF \<Longrightarrow>
   encode_utf_16_le message = Inl UnicodeEncodeError"
  using encode_result [of message] by blast

lemma encode_ok:
  "\<not> (\<exists>c\<in>set message. 0xD800 \<le> c \<and> c \<le> 0xDFFF) \<Longrightarrow>
   \<exists>bs. encode_utf_16_le message = Inr bs"
  using encode_result [of message] by blast

lemma floordiv_bytes: "floordiv (PyBytes bs) b = Inl TypeError"
  by (simp add: floordiv_def)

text \<open>
  C10, as amended. For every text, \<open>check_message_length\<close> raises and never returns
  a boolean: \<open>UnicodeEncodeError\<close> from the encoder when the text has a surrogate
  code point, and \<open>TypeError\<close> from the floor division otherwise.
\<close>

theorem check_message_length_raises:
  "check_message_length message max_len =
     Inl (if \<exists>c\<in>set message. 0xD800 \<le> c \<and> c \<le> 0xDFFF
          then UnicodeEncodeError else TypeError)
   \<and> (\<forall>b. check_message_length message max_len \<noteq> Inr b)"
proof -
  have "check_message_length message max_len =
     Inl (if \<exists>c\<in>set message. 0xD800 \<le> c \<and> c \<le> 0xDFFF
          then UnicodeEncodeError else TypeError)"
  proof (cases "\<exists>c\<in>set message. 0xD800 \<le> c \<and> c \<le> 0xDFFF")
    case True
    from encode_surrogate [OF True] True show ?thesis
      by (simp add: check_message_length_def)
  next
    case False
    from encode_ok [OF False] obtain bs where "encode_utf_16_le message = Inr bs" ..
    with False show ?thesis
      by (simp add: check_message_length_def floordiv_bytes)
  qed
  then show ?thesis by simp
qed

text \<open>
  C10 as stated fails: for the one-character text U+D800 the exception is
  \<open>UnicodeEncodeError\<close>, raised by \<open>encode\<close> before the floor division is reached.
\<close>

theorem check_message_length_counterexample:
  "check_message_length [0xD800] 200 = Inl UnicodeEncodeError
   \<and> check_message_length [0xD800] 200 \<noteq> Inl TypeError"
  by (simp add: check_message_length_def)

text \<open>The amended C10 at a text that can be encoded and at one with a lone surrogate.\<close>

theorem check_message_length_raises_witness:
  "check_message_length [0x68, 0x69, 0x1F600] 200 = Inl TypeError
   \<and> check_message_length [0x68, 0xDC00] 200 = Inl UnicodeEncodeError"
  using check_message_length_raises [of "[0x68, 0x69, 0x1F600]" 200]
        check_message_length_raises [of "[0x68, 0xDC00]" 200]
  by simp


section \<open>Properties of the grouping\<close>

lemma keys_names_append:
  "map fst (names_append m k c) = (if k \<in> set (map fst m) then map fst m else map fst m @ [k])"
  by (induction m) force+

lemma map_of_names_append:
  "map_of (names_append m k c) =
   (map_of m)(k \<mapsto> (case map_of m k of None \<Rightarrow> [c] | Some g \<Rightarrow> g @ [c]))"
  by (induction m) (auto simp: fun_eq_iff)

lemma group_names_snoc:
  "group_names clean_text (cards @ [c]) =
   names_append (group_names clean_text cards) (clean_text (name c)) c"
  by (simp add: group_names_def)

lemma group_names_distinct: "distinct (map fst (group_names clean_text cards))"
proof (induction cards rule: rev_induct)
  case Nil
  show ?case by (simp add: group_names_def)
next
  case (snoc c cards)
  then show ?case by (simp add: group_names_snoc keys_names_append)
qed

lemma group_names_map_of:
  "map_of (group_names clean_text cards) k =
   (if k \<in> (\<lambda>c. clean_text (name c)) ` set cards
    then Some (filter (\<lambda>c. clean_text (name c) = k) cards) else None)"
proof (induction cards rule: rev_induct)
  case Nil
  show ?case by (simp add: group_names_def)
next
  case (snoc c cards)
  have none: "filter (\<lambda>d. clean_text (name d) = k') cards = []"
    if "k' \<notin> (\<lambda>c. clean_text (name c)) ` set cards" for k'
    using that by (force simp: filter_empty_conv)
  show ?case
  proof (cases "k = clean_text (name c)")
    case True
    with snoc none [of k] show ?thesis
      by (simp add: group_names_snoc map_of_names_append)
  next
    case False
    with snoc show ?thesis
      by (simp add: group_names_snoc map_of_names_append)
  qed
qed

lemma group_names_entry:
  "(k, g) \<in> set (group_names clean_text cards) \<longleftrightarrow>
   k \<in> (\<lambda>c. clean_text (name c)) ` set cards \<and> g = filter (\<lambda>c. clean_text (name c) = k) cards"
proof -
  have "(k, g) \<in> set (group_names clean_text cards) \<longleftrightarrow>
        map_of (group_names clean_text cards) k = Some g"
    using group_names_distinct [of clean_text cards] by simp
  then show ?thesis
    by (auto simp: group_names_map_of)
qed

lemma running_max_split:
  fixes key :: "'a \<Rightarrow> 'k::linorder"
  shows "\<exists>pre post. x # rest = pre @ foldl (\<lambda>m y. if key m < key y then y else m) x rest # post
     \<and> (\<forall>d\<in>set pre. key d < key (foldl (\<lambda>m y. if key m < key y then y else m) x rest))
     \<and> (\<forall>d\<in>set post. key d \<le> key (foldl (\<lambda>m y. if key m < key y then y else m) x rest))"
proof (induction rest rule: rev_induct)
  case Nil
  have "[x] = [] @ x # []" by simp
  then show ?case by fastforce
next
  case (snoc y rest)
  let ?m = "foldl (\<lambda>m y. if key m < key y then y else m) x rest"
  from snoc obtain pre post where
    split: "x # rest = pre @ ?m # post" and
    pre: "\<forall>d\<in>set pre. key d < key ?m" and
    post: "\<forall>d\<in>set post. key d \<le> key ?m"
    by blast
  show ?case
  proof (cases "key ?m < key y")
    case True
    have a: "x # rest @ [y] = (pre @ ?m # post) @ y # []"
      using split by simp
    have b: "\<forall>d\<in>set (pre @ ?m # post). key d < key y"
      using pre post True by auto
    from a b True show ?thesis
      by (intro exI [of _ "pre @ ?m # post"] exI [of _ "[]"]) simp
  next
    case False
    have a: "x # rest @ [y] = pre @ ?m # (post @ [y])"
      using split by simp
    have b: "\<forall>d\<in>set (post @ [y]). key d \<le> key ?m"
      using post False by auto
    from a b pre False show ?thesis
      by (intro exI [of _ pre] exI [of _ "post @ [y]"]) simp
  qed
qed

lemma py_max_first:
  fixes key :: "'a \<Rightarrow> 'k::linorder"
  assumes "xs \<noteq> []"
  shows "\<exists>m pre post. py_max key xs = Inr m \<and> xs = pre @ m # post
     \<and> (\<forall>d\<in>set pre. key d < key m) \<and> (\<forall>d\<in>set post. key d \<le> key m)"
proof -
  from assms obtain x rest where xs: "xs = x # rest" by (cases xs) auto
  from running_max_split [of x rest key] show ?thesis
    unfolding xs py_max_def by auto
qed

lemma map_err_total:
  "\<forall>x\<in>set xs. f x = Inr (g x) \<Longrightarrow> map_err f xs = Inr (map g xs)"
  by (induction xs) auto

lemma filter_distinct_key:
  "distinct (map f xs) \<Longrightarrow> x \<in> set xs \<Longrightarrow> filter (\<lambda>y. f y = f x) xs = [x]"
proof (induction xs)
  case Nil
  then show ?case by simp
next
  case (Cons a xs)
  show ?case
  proof (cases "a = x")
    case True
    from Cons.prems True have "f x \<notin> f ` set xs" by simp
    then have "\<forall>y\<in>set xs. f y \<noteq> f x" by (metis imageI)
    then have "filter (\<lambda>y. f y = f x) xs = []" by (simp add: filter_empty_conv)
    with True show ?thesis by simp
  next
    case False
    with Cons.prems have "x \<in> set xs" "f a \<noteq> f x" by auto
    with Cons show ?thesis by simp
  qed
qed


lemma group_max_member:
  assumes "(k, g) \<in> set (group_names clean_text cards)"
  shows "\<exists>m. py_max (\<lambda>c. releaseDate (card_set c)) g = Inr m \<and> clean_text (name m) = k"
proof -
  from assms have k: "k \<in> (\<lambda>c. clean_text (name c)) ` set cards"
    and g: "g = filter (\<lambda>c. clean_text (name c) = k) cards"
    by (simp_all add: group_names_entry)
  from k g have "g \<noteq> []"
    by (force simp: filter_empty_conv)
  from py_max_first [OF this, of "\<lambda>c. releaseDate (card_set c)"]
  obtain m pre post where m: "py_max (\<lambda>c. releaseDate (card_set c)) g = Inr m"
    and split: "g = pre @ m # post"
    by blast
  from split have "m \<in> set g" by simp
  with g have "clean_text (name m) = k" by simp
  with m show ?thesis by blast
qed

text \<open>
  C5. For every card \<open>c0\<close> of the list given to \<open>group_other_cards\<close>, the grouping
  returns, and exactly one of its groups holds cards with the cleaned name of \<open>c0\<close>:
  the one-element group \<open>[m]\<close>, where \<open>m\<close> splits the cards of that cleaned name, in
  fetch order, into those before it, all with a strictly smaller release date, and
  those after it, all with a release date that is smaller or equal. So \<open>m\<close> has the
  maximum release date, and on a tie the first card met wins.
\<close>

theorem group_other_cards_latest:
  assumes "c0 \<in> set cards"
  shows "\<exists>gs m pre post.
           group_other_cards clean_text cards = Inr gs
         \<and> filter (\<lambda>g. \<exists>c\<in>set g. clean_text (name c) = clean_text (name c0)) gs = [[m]]
         \<and> filter (\<lambda>c. clean_text (name c) = clean_text (name c0)) cards = pre @ m # post
         \<and> (\<forall>d\<in>set pre. releaseDate (card_set d) < releaseDate (card_set m))
         \<and> (\<forall>d\<in>set post. releaseDate (card_set d) \<le> releaseDate (card_set m))"
proof -
  let ?rd = "\<lambda>c::card. releaseDate (card_set c)"
  let ?G = "group_names clean_text cards"
  let ?k0 = "clean_text (name c0)"
  let ?S = "filter (\<lambda>c. clean_text (name c) = ?k0) cards"
  let ?P = "\<lambda>g. \<exists>c\<in>set g. clean_text (name c) = ?k0"
  define h :: "card list \<Rightarrow> card list"
    where "h g = (case py_max ?rd g of Inl e \<Rightarrow> [] | Inr m \<Rightarrow> [m])" for g
  have ok: "(case py_max ?rd g of Inl e \<Rightarrow> Inl e | Inr m \<Rightarrow> Inr [m]) = Inr (h g)"
    if "g \<in> set (map snd ?G)" for g
  proof -
    from that obtain k where "(k, g) \<in> set ?G" by auto
    from group_max_member [OF this] show ?thesis
      by (auto simp: h_def)
  qed
  then have gs: "group_other_cards clean_text cards = Inr (map h (map snd ?G))"
    unfolding group_other_cards_def by (intro map_err_total) blast
  from assms have entry: "(?k0, ?S) \<in> set ?G"
    by (simp add: group_names_entry)
  from assms have "?S \<noteq> []"
    by (auto simp: filter_empty_conv)
  from py_max_first [OF this, of ?rd]
  obtain m pre post where m: "py_max ?rd ?S = Inr m"
    and split: "?S = pre @ m # post"
    and pre: "\<forall>d\<in>set pre. ?rd d < ?rd m"
    and post: "\<forall>d\<in>set post. ?rd d \<le> ?rd m"
    by blast
  have hS: "h ?S = [m]"
    using m by (simp add: h_def)
  have sel: "?P (h (snd e)) \<longleftrightarrow> fst e = fst (?k0, ?S)" if "e \<in> set ?G" for e
  proof -
    obtain k g where e: "e = (k, g)" by (cases e)
    from group_max_member [of k g clean_text cards] that e
    obtain m' where "py_max ?rd g = Inr m'" and "clean_text (name m') = k"
      by blast
    then show ?thesis
      by (simp add: e h_def)
  qed
  have "filter ?P (map h (map snd ?G)) = map (\<lambda>e. h (snd e)) (filter (\<lambda>e. ?P (h (snd e))) ?G)"
    by (simp add: filter_map o_def)
  also have "filter (\<lambda>e. ?P (h (snd e))) ?G = filter (\<lambda>e. fst e = fst (?k0, ?S)) ?G"
    using sel by (intro filter_cong) auto
  also have "\<dots> = [(?k0, ?S)]"
    using group_names_distinct [of clean_text cards] entry by (rule filter_distinct_key)
  finally have "filter ?P (map h (map snd ?G)) = [[m]]"
    by (simp add: hS)
  with gs split pre post show ?thesis
    by blast
qed

text \<open>Three printings of one Trainer card; the last two share the latest release date.\<close>

lemma potion_samples:
  "name potion_base = ''Potion''" "name potion_bw = ''Potion''" "name potion_swsh = ''Potion''"
  "releaseDate (card_set potion_base) = ''1999/01/09''"
  "releaseDate (card_set potion_bw) = ''2011/04/25''"
  "releaseDate (card_set potion_swsh) = ''2011/04/25''"
  by (simp_all add: potion_base_def potion_bw_def potion_swsh_def plain_card_def)

lemma potion_group:
  "group_other_cards id [potion_base, potion_bw, potion_swsh] = Inr [[potion_bw]]"
  by (simp add: group_other_cards_def group_names_def py_max_def potion_samples)

text \<open>C5 at these printings: the group is the first card of the latest date.\<close>

theorem group_other_cards_latest_witness:
  "potion_base \<in> set [potion_base, potion_bw, potion_swsh]
   \<and> group_other_cards id [potion_base, potion_bw, potion_swsh] = Inr [[potion_bw]]
   \<and> (\<exists>m pre post.
         filter (\<lambda>g. \<exists>c\<in>set g. name c = ''Potion'') [[potion_bw]] = [[m]]
       \<and> filter (\<lambda>c. name c = ''Potion'') [potion_base, potion_bw, potion_swsh] = pre @ m # post
       \<and> (\<forall>d\<in>set pre. releaseDate (card_set d) < releaseDate (card_set m))
       \<and> (\<forall>d\<in>set post. releaseDate (card_set d) \<le> releaseDate (card_set m)))"
proof -
  have h: "potion_base \<in> set [potion_base, potion_bw, potion_swsh]"
    by simp
  from group_other_cards_latest [OF h, of id] h show ?thesis
    by (simp add: potion_group potion_samples)
qed

section \<open>Bare rows of a creature group\<close>

lemma gen_cardnames_bare_visible:
  "(n, h) \<in> set (gen_cardnames crd unique setunique) \<Longrightarrow> n = name crd \<Longrightarrow> \<not> h"
  by (auto simp: gen_cardnames_def split: if_splits)

lemma name_mark_trait: "name (mark_trait crd) = name crd"
  by (simp add: mark_trait_def)

lemma process_card_bare:
  assumes "process_card clean_text crd grp = Inr rs"
    and "supertype crd = Pokemon" and "crd \<in> set grp"
  shows "map (\<lambda>r. (row_cardname r, row_hidden r, row_card r))
           (filter (\<lambda>r. row_cardname r = name (row_card r)) rs)
         = (if length grp = 1 then [(name crd, False, mark_trait crd)] else [])"
proof -
  let ?names = "gen_cardnames crd (length grp \<le> 1)
      (length (filter (\<lambda>c. set_id (card_set c) = set_id (card_set crd)) grp) \<le> 1)"
  from assms(1) obtain pieces where
    rs: "rs = map (\<lambda>(cardname, hidden).
                     \<lparr>row_cardname = cardname,
                      row_filteredname = clean_text cardname,
                      row_description = concat pieces,
                      row_hidden = hidden,
                      row_card = mark_trait crd\<rparr>) ?names"
    by (auto simp: process_card_def Let_def split: sum.splits)
  have "map (\<lambda>r. (row_cardname r, row_hidden r, row_card r))
           (filter (\<lambda>r. row_cardname r = name (row_card r)) rs)
        = map (\<lambda>(n, h). (n, h, mark_trait crd)) (filter (\<lambda>(n, hidden). n = name crd) ?names)"
    unfolding rs by (simp add: filter_map o_def split_def name_mark_trait)
  also note gen_cardnames_bare [OF assms(2,3)]
  finally show ?thesis by simp
qed

lemma process_card_bare_visible:
  assumes "process_card clean_text crd grp = Inr rs" and "r \<in> set rs"
    and "row_cardname r = name (row_card r)"
  shows "\<not> row_hidden r"
proof -
  from assms(1,2) have "(row_cardname r, row_hidden r) \<in>
     set (gen_cardnames crd (length grp \<le> 1)
      (length (filter (\<lambda>c. set_id (card_set c) = set_id (card_set crd)) grp) \<le> 1))"
    and "row_card r = mark_trait crd"
    by (auto simp: process_card_def Let_def split: sum.splits)
  with assms(3) show ?thesis
    using gen_cardnames_bare_visible by (simp add: name_mark_trait)
qed

lemma map_err_member:
  "map_err f xs = Inr yss \<Longrightarrow> ys \<in> set yss \<Longrightarrow> \<exists>x\<in>set xs. f x = Inr ys"
  by (induction xs arbitrary: yss) (auto split: sum.splits)

lemma map_err_filter_empty:
  "map_err f xs = Inr yss \<Longrightarrow> (\<And>x ys. x \<in> set xs \<Longrightarrow> f x = Inr ys \<Longrightarrow> filter P ys = []) \<Longrightarrow>
   filter P (concat yss) = []"
proof -
  assume a: "map_err f xs = Inr yss"
    and b: "\<And>x ys. x \<in> set xs \<Longrightarrow> f x = Inr ys \<Longrightarrow> filter P ys = []"
  have "filter P ys = []" if "ys \<in> set yss" for ys
    using map_err_member [OF a that] b by blast
  then show ?thesis
    by (simp add: filter_concat)
qed


lemma insert_of_kept:
  "insert_of r \<noteq> [] \<longleftrightarrow>
   \<not> (name (row_card r) \<in> {''Chansey ex'', ''Electabuzz ex'', ''Magmar ex''}
      \<and> row_cardname r = name (row_card r))"
  by (simp add: insert_of_def get_hacks_def Let_def)

text \<open>
  C8, as amended. For a group of creature cards whose rows are produced, the number of
  bare rows (display name equal to the card name) among the rows of the group is one
  when the group has exactly one member and zero otherwise; every bare row has the
  hidden flag false; and the insert loop keeps the bare row unless the card is named
  Chansey ex, Electabuzz ex or Magmar ex.
\<close>

theorem group_bare_rows:
  assumes "\<forall>c\<in>set grp. supertype c = Pokemon"
    and "group_rows clean_text grp = Inr rows"
  shows "length (filter (\<lambda>r. row_cardname r = name (row_card r)) rows)
           = (if length grp = 1 then 1 else 0)
       \<and> (\<forall>r\<in>set rows. row_cardname r = name (row_card r) \<longrightarrow> \<not> row_hidden r)
       \<and> length (filter (\<lambda>r. row_cardname r = name (row_card r) \<and> insert_of r \<noteq> []) rows)
           = (if length grp = 1
                 \<and> name (hd grp) \<notin> {''Chansey ex'', ''Electabuzz ex'', ''Magmar ex''}
              then 1 else 0)"
proof -
  let ?bare = "\<lambda>r. row_cardname r = name (row_card r)"
  let ?ex = "{''Chansey ex'', ''Electabuzz ex'', ''Magmar ex''}"
  from assms(2) obtain rss where
    rss: "map_err (\<lambda>c. process_card clean_text c grp) grp = Inr rss"
    and rows: "rows = concat rss"
    by (auto simp: group_rows_def split: sum.splits)
  have both: "filter (\<lambda>r. ?bare r \<and> insert_of r \<noteq> []) rows
              = filter (\<lambda>r. insert_of r \<noteq> []) (filter ?bare rows)"
    by (simp add: conj_commute)
  have visible: "\<forall>r\<in>set rows. ?bare r \<longrightarrow> \<not> row_hidden r"
  proof (intro ballI impI)
    fix r
    assume "r \<in> set rows" and bare: "?bare r"
    then obtain rs where "rs \<in> set rss" and r: "r \<in> set rs"
      unfolding rows by auto
    from map_err_member [OF rss this(1)]
    obtain c where "process_card clean_text c grp = Inr rs" by blast
    from process_card_bare_visible [OF this r bare] show "\<not> row_hidden r" .
  qed
  show ?thesis
  proof (cases "length grp = 1")
    case True
    then obtain c where grp: "grp = [c]"
      by (cases grp) auto
    from rss obtain rs where rs: "process_card clean_text c grp = Inr rs" and "rss = [rs]"
      unfolding grp by (auto split: sum.splits)
    with rows have rows_rs: "rows = rs" by simp
    from assms(1) grp have "supertype c = Pokemon" and "c \<in> set grp" by simp_all
    from process_card_bare [OF rs this] True
    have m: "map (\<lambda>r. (row_cardname r, row_hidden r, row_card r)) (filter ?bare rows)
             = [(name c, False, mark_trait c)]"
      by (simp add: rows_rs)
    then obtain r0 where r0: "filter ?bare rows = [r0]"
      and "row_cardname r0 = name c" and "row_card r0 = mark_trait c"
      by (cases "filter ?bare rows") auto
    then have "insert_of r0 \<noteq> [] \<longleftrightarrow> name c \<notin> ?ex"
      by (simp add: insert_of_kept name_mark_trait)
    with r0 True visible show ?thesis
      unfolding both by (simp add: grp)
  next
    case False
    have "filter ?bare rs = []" if "c \<in> set grp" and "process_card clean_text c grp = Inr rs" for c rs
    proof -
      from assms(1) that(1) have "supertype c = Pokemon" by simp
      from process_card_bare [OF that(2) this that(1)] False show ?thesis by simp
    qed
    with rss have "filter ?bare rows = []"
      unfolding rows by (rule map_err_filter_empty)
    with False visible show ?thesis
      unfolding both by simp
  qed
qed

text \<open>The four rows of a group of two cards of one name in different sets.\<close>

lemma pikachu_pair_rows:
  "map_sum id (map (\<lambda>r. (row_cardname r, row_hidden r)))
     (group_rows id [pikachu_base, pikachu_jungle])
   = Inr [(''Pikachu (BASE1 58)'', True), (''Pikachu (BASE1)'', False),
          (''Pikachu (BASE2 60)'', True), (''Pikachu (BASE2)'', False)]"
  by (simp add: group_rows_def process_card_def gen_text_def gen_cardnames_def if_get_def
        mark_trait_def pikachu_base_def pikachu_jungle_def plain_card_def setcode_def
        upper_def upper_char_def)

text \<open>
  C8 as stated fails: a group of two creature cards emits no bare row at all.
\<close>

theorem group_bare_rows_counterexample:
  "map_sum id (filter (\<lambda>r. row_cardname r = name (row_card r)))
     (group_rows id [pikachu_base, pikachu_jungle]) = Inr []
   \<and> supertype pikachu_base = Pokemon \<and> supertype pikachu_jungle = Pokemon"
  by (simp add: group_rows_def process_card_def gen_text_def gen_cardnames_def if_get_def
        mark_trait_def pikachu_base_def pikachu_jungle_def plain_card_def setcode_def
        upper_def upper_char_def)

lemma pikachu_single_rows:
  "\<exists>rows. group_rows id [pikachu_base] = Inr rows"
  by (simp add: group_rows_def process_card_def gen_text_def if_get_def
        mark_trait_def pikachu_base_def plain_card_def)

text \<open>The amended C8 at a group of one card.\<close>

theorem group_bare_rows_witness:
  "supertype pikachu_base = Pokemon
   \<and> (\<exists>rows. group_rows id [pikachu_base] = Inr rows
        \<and> length (filter (\<lambda>r. row_cardname r = name (row_card r)) rows) = 1
        \<and> (\<forall>r\<in>set rows. row_cardname r = name (row_card r) \<longrightarrow> \<not> row_hidden r)
        \<and> length (filter (\<lambda>r. row_cardname r = name (row_card r) \<and> insert_of r \<noteq> []) rows) = 1)"
proof -
  have h1: "\<forall>c\<in>set [pikachu_base]. supertype c = Pokemon"
    by (simp add: pikachu_base_fields)
  from pikachu_single_rows obtain rows where h2: "group_rows id [pikachu_base] = Inr rows" ..
  from group_bare_rows [OF h1 h2] h1 h2 show ?thesis
    by (simp add: pikachu_base_fields)
qed


end
